theory Spec2Isabelle
  imports Complex_Main "HOL-Library.Char_ord" "HOL-Library.List_Lexorder"
begin

section \<open>Arxiv Multi-View Reviewer: a model of \<open>app.py\<close>\<close>

text \<open>
  The program is one Python script: a search client (\<open>ArxivFetcher.search_papers\<close>),
  a review generator (\<open>GeminiProcessor.generate_review\<close>) and a presentation loop
  (\<open>main\<close>). Both collaborators talk to a remote service; the services are parameters
  of the model, and everything the script does with their answers is a branch of a
  definition below. Python's \<open>str\<close> is \<open>string\<close>; Python's \<open>int\<close> is \<open>int\<close>.
  The script's fixed display texts are partly written outside ASCII, so a call that shows
  a fixed text is an event named after its place in the script, and a call that shows a
  computed text carries that text.
\<close>

subsection \<open>Exceptions\<close>

text \<open>
  What a remote call can raise. \<open>except Exception\<close> catches every instance of
  \<open>Exception\<close> and nothing else: \<open>KeyboardInterrupt\<close> and \<open>SystemExit\<close> derive from
  \<open>BaseException\<close> only and pass through. Each value carries \<open>str(e)\<close>, the text an
  f-string shows for it.
\<close>

datatype raised = PyException string | PyBaseException string

text \<open>
  What a function of the script can end with when it does not return: the \<open>KeyError\<close> of
  a failed dictionary lookup (with the missing key), or an exception of a remote call that
  no handler caught.
\<close>

datatype py_error = KeyError string | Uncaught raised

subsection \<open>The review generator\<close>

text \<open>
  The two values of the dictionary \<open>prompts\<close> (lines 69-76 and 77-84) are fixed texts;
  they are kept as two distinct tokens. The full prompt is the f-string of line 93: the
  template, the fixed separator \<open>\n\nTarget Abstract:\n\<close>, and the text.
\<close>

datatype template = ExpertTemplate | BeginnerTemplate

datatype full_prompt = FullPrompt template string

text \<open>
  \<open>genai.types.GenerationConfig(temperature=...)\<close>: the only parameter the script sets.
  The literals \<open>0.0\<close> and \<open>0.7\<close> are modelled by the numbers they denote; the script
  does no arithmetic on them.
\<close>

record GenerationConfig =
  temperature :: real

text \<open>One request to the generative-text service, as line 96 sends it.\<close>

record gen_call =
  model_name :: string
  prompt :: full_prompt
  generation_config :: GenerationConfig

text \<open>
  The service: what \<open>model.generate_content(...)\<close> followed by \<open>response.text\<close> gives
  for a request, a text or an exception. Both steps are inside the \<open>try\<close> of line 95.
\<close>

type_synonym gen_service = "gen_call \<Rightarrow> raised + string"

text \<open>The dictionary of line 68, with its two keys.\<close>

definition prompts :: "string \<Rightarrow> template option" where
  "prompts key =
     (if key = ''expert'' then Some ExpertTemplate
      else if key = ''beginner'' then Some BeginnerTemplate
      else None)"

text \<open>\<open>self.model_name\<close>, set in \<open>__init__\<close> (line 59).\<close>

definition gemini_model_name :: string where
  "gemini_model_name = ''gemini-1.5-flash''"

text \<open>Lines 89-91: the configuration is computed from the persona alone.\<close>

definition make_generation_config :: "string \<Rightarrow> GenerationConfig" where
  "make_generation_config persona =
     \<lparr>temperature = (if persona = ''expert'' then 0 else 7 / 10)\<rparr>"

text \<open>
  \<open>generate_review\<close> (lines 61-102). The result is the list of requests sent to the
  service, in order, and the outcome: \<open>Inr\<close> the returned string, \<open>Inl\<close> the exception
  that leaves the function. The lookup \<open>prompts[persona]\<close> of line 93 comes after the
  configuration is built and before the \<open>try\<close>.
\<close>

definition generate_review ::
  "gen_service \<Rightarrow> string \<Rightarrow> string \<Rightarrow> gen_call list \<times> (py_error + string)" where
  "generate_review generate_content text persona =
     (let generation_config = make_generation_config persona in
      case prompts persona of
        None \<Rightarrow> ([], Inl (KeyError persona))
      | Some tmpl \<Rightarrow>
          (let call = \<lparr>model_name = gemini_model_name,
                       prompt = FullPrompt tmpl text,
                       generation_config = generation_config\<rparr>
           in case generate_content call of
                Inr response_text \<Rightarrow> ([call], Inr response_text)
              | Inl (PyException e) \<Rightarrow> ([call], Inr (''Error generation review: '' @ e))
              | Inl (PyBaseException e) \<Rightarrow> ([call], Inl (Uncaught (PyBaseException e)))))"

text \<open>The temperatures of the requests a call of \<open>generate_review\<close> sends.\<close>

definition sent_temperatures :: "gen_service \<Rightarrow> string \<Rightarrow> string \<Rightarrow> real list" where
  "sent_temperatures svc text persona =
     map (\<lambda>c. temperature (generation_config c)) (fst (generate_review svc text persona))"

subsection \<open>The search client\<close>

text \<open>
  The request object of the \<open>arxiv\<close> package. The script sets the query, the bound and
  the sort criterion (lines 29-33); the sort order keeps the package's default,
  \<open>SortOrder.Descending\<close>.
\<close>

datatype SortCriterion = Relevance | LastUpdatedDate | SubmittedDate

datatype SortOrder = Ascending | Descending

record Search =
  search_query :: string
  search_max_results :: int
  search_sort_by :: SortCriterion
  search_sort_order :: SortOrder

definition arxiv_Search :: "string \<Rightarrow> int \<Rightarrow> SortCriterion \<Rightarrow> Search" where
  "arxiv_Search q n criterion =
     \<lparr>search_query = q, search_max_results = n, search_sort_by = criterion,
      search_sort_order = Descending\<rparr>"

text \<open>
  A \<open>datetime\<close>, to the second (the provider's dates are all in UTC), and the fields of
  an \<open>arxiv.Result\<close> the script reads.
\<close>

record datetime =
  dt_year :: nat
  dt_month :: nat
  dt_day :: nat
  dt_hour :: nat
  dt_minute :: nat
  dt_second :: nat

datatype author = Author string

fun author_name :: "author \<Rightarrow> string" where
  "author_name (Author n) = n"

record arxiv_result =
  res_title :: string
  res_summary :: string
  res_entry_id :: string
  res_published :: datetime
  res_authors :: "author list"

text \<open>
  The dates the provider gives: the ranges Python's \<open>datetime\<close> constructor enforces on
  the fields used here, with a year of four digits (the provider's dates start in 1991;
  for a year below 1000 what \<open>%Y\<close> gives depends on the platform's C library).
\<close>

definition provider_datetime :: "datetime \<Rightarrow> bool" where
  "provider_datetime d =
     (1000 \<le> dt_year d \<and> dt_year d \<le> 9999 \<and> 1 \<le> dt_month d \<and> dt_month d \<le> 12
      \<and> 1 \<le> dt_day d \<and> dt_day d \<le> 31
      \<and> dt_hour d < 24 \<and> dt_minute d < 60 \<and> dt_second d < 60)"

text \<open>The order of two datetimes of one time zone: field by field, the year first.\<close>

definition datetime_key :: "datetime \<Rightarrow> nat list" where
  "datetime_key d = [dt_year d, dt_month d, dt_day d, dt_hour d, dt_minute d, dt_second d]"

definition datetime_le :: "datetime \<Rightarrow> datetime \<Rightarrow> bool" where
  "datetime_le a b = (datetime_key a \<le> datetime_key b)"

text \<open>
  \<open>strftime("%Y-%m-%d")\<close>: \<open>%Y\<close> is the year in four decimal digits, \<open>%m\<close> and
  \<open>%d\<close> the month and the day in two, each padded with zeros on the left; the hyphens are
  copied. \<open>zpad w n\<close> writes the \<open>w\<close> low decimal digits of \<open>n\<close>, the highest first.
\<close>

definition digit_char :: "nat \<Rightarrow> char" where
  "digit_char n = char_of (48 + n)"

fun zpad :: "nat \<Rightarrow> nat \<Rightarrow> string" where
  "zpad 0 n = []"
| "zpad (Suc w) n = digit_char (n div 10 ^ w mod 10) # zpad w n"

definition strftime_Y_m_d :: "datetime \<Rightarrow> string" where
  "strftime_Y_m_d d = zpad 4 (dt_year d) @ ''-'' @ zpad 2 (dt_month d) @ ''-'' @ zpad 2 (dt_day d)"

text \<open>Python's \<open>sep.join(items)\<close>.\<close>

fun py_join :: "string \<Rightarrow> string list \<Rightarrow> string" where
  "py_join sep [] = []"
| "py_join sep [x] = x"
| "py_join sep (x # y # ys) = x @ sep @ py_join sep (y # ys)"

text \<open>The dictionary built for each result (lines 38-44), with its five fixed keys.\<close>

record paper =
  title :: string
  summary :: string
  url :: string
  published :: string
  authors :: string

definition make_paper :: "arxiv_result \<Rightarrow> paper" where
  "make_paper result =
     \<lparr>title = res_title result,
      summary = res_summary result,
      url = res_entry_id result,
      published = strftime_Y_m_d (res_published result),
      authors = py_join '', '' (map author_name (res_authors result))\<rparr>"

text \<open>
  What iterating \<open>client.results(search)\<close> gives: results one by one, and then either
  the end of the iteration or an exception. The provider answers with finitely many
  results.
\<close>

datatype feed = Stop | Yield arxiv_result feed | Fail raised

fun yields :: "arxiv_result list \<Rightarrow> feed \<Rightarrow> feed" where
  "yields [] f = f"
| "yields (r # rs) f = Yield r (yields rs f)"

fun feed_items :: "feed \<Rightarrow> arxiv_result list" where
  "feed_items Stop = []"
| "feed_items (Yield r f) = r # feed_items f"
| "feed_items (Fail e) = []"

fun feed_error :: "feed \<Rightarrow> raised option" where
  "feed_error Stop = None"
| "feed_error (Yield r f) = feed_error f"
| "feed_error (Fail e) = Some e"

subsection \<open>Events\<close>

text \<open>
  What a run of the script does that can be observed, in order: the requests to the two
  services, the calls of the two collaborators, and the calls that put something on the
  page. The number after a name is the line of the script.
\<close>

datatype event =
    Title                       \<comment> \<open>106: the page title\<close>
  | Intro                       \<comment> \<open>107: the introduction\<close>
  | Sidebar_settings_header     \<comment> \<open>114\<close>
  | Sidebar_divider             \<comment> \<open>117\<close>
  | Sidebar_filter_header       \<comment> \<open>118\<close>
  | Sidebar_tip                 \<comment> \<open>122\<close>
  | Warning_no_key              \<comment> \<open>126: the instruction to enter a key\<close>
  | Configure string            \<comment> \<open>58: \<open>genai.configure(api_key=...)\<close>\<close>
  | Spinner string              \<comment> \<open>134, 159, 166: \<open>st.spinner(label)\<close>\<close>
  | SearchCall string int       \<comment> \<open>135: \<open>fetcher.search_papers(query, max_results)\<close>\<close>
  | ProviderRequest Search      \<comment> \<open>37: \<open>client.results(search)\<close>\<close>
  | St_error string             \<comment> \<open>46: \<open>st.error(text)\<close>\<close>
  | Warning_not_found           \<comment> \<open>138: no paper was found\<close>
  | Success_found nat           \<comment> \<open>141: the number of papers found\<close>
  | Paper_heading nat string    \<comment> \<open>146: the number \<open>i+1\<close> and the title\<close>
  | Caption string              \<comment> \<open>147\<close>
  | Expander_abstract string    \<comment> \<open>150-151: the expander with the summary\<close>
  | Columns nat                 \<comment> \<open>154: \<open>st.columns(2)\<close>\<close>
  | Col1_heading                \<comment> \<open>158: the heading of the expert view\<close>
  | ReviewCall string string    \<comment> \<open>160, 167: \<open>processor.generate_review(text, persona)\<close>\<close>
  | GenerateContent gen_call    \<comment> \<open>96: the request to the generative-text service\<close>
  | Col1_info string            \<comment> \<open>161: \<open>st.info(review_expert)\<close> in the left column\<close>
  | Col2_heading                \<comment> \<open>165: the heading of the beginner view\<close>
  | Col2_success string         \<comment> \<open>168: \<open>st.success(review_beginner)\<close> in the right column\<close>
  | Divider                     \<comment> \<open>170\<close>

text \<open>
  The loop of lines 37-44 with its accumulator \<open>papers\<close>: the list as it stands when the
  loop is left, and the exception that left it, if any.
\<close>

fun for_results :: "feed \<Rightarrow> paper list \<Rightarrow> paper list \<times> raised option" where
  "for_results Stop papers = (papers, None)"
| "for_results (Yield result rest) papers = for_results rest (papers @ [make_paper result])"
| "for_results (Fail e) papers = (papers, Some e)"

text \<open>
  \<open>search_papers\<close> (lines 25-49), the function under the decorator. \<open>client_results\<close> is
  the provider as it answers at the time of the call.
\<close>

definition search_papers ::
  "(Search \<Rightarrow> feed) \<Rightarrow> string \<Rightarrow> int \<Rightarrow> event list \<times> (py_error + paper list)" where
  "search_papers client_results q n =
     (let search = arxiv_Search q n SubmittedDate in
      case for_results (client_results search) [] of
        (papers, None) \<Rightarrow> ([ProviderRequest search], Inr papers)
      | (papers, Some (PyException e)) \<Rightarrow>
          ([ProviderRequest search, St_error (''Arxiv API Error: '' @ e)], Inr [])
      | (papers, Some (PyBaseException e)) \<Rightarrow>
          ([ProviderRequest search], Inl (Uncaught (PyBaseException e))))"

subsection \<open>The memo of the search client\<close>

text \<open>
  Modelled from the spec: the decorator \<open>st.cache_data(ttl=3600)\<close> of line 24 belongs to
  the Streamlit package, which is not part of the sources. The spec describes it as a map
  from the argument tuple (query, limit) to (timestamp, result), with expiry checked on
  read, no size bound and no invalidation besides expiry. Time is in seconds. A call that
  raises stores nothing.
\<close>

type_synonym memo = "string \<times> int \<Rightarrow> (nat \<times> paper list) option"

definition ttl :: nat where
  "ttl = 3600"

definition memo_lookup :: "memo \<Rightarrow> nat \<Rightarrow> string \<times> int \<Rightarrow> paper list option" where
  "memo_lookup m now key =
     (case m key of
        None \<Rightarrow> None
      | Some (stored, val) \<Rightarrow> if now < stored + ttl then Some val else None)"

definition search_papers_cached ::
  "(nat \<Rightarrow> Search \<Rightarrow> feed) \<Rightarrow> memo \<Rightarrow> nat \<Rightarrow> string \<Rightarrow> int
     \<Rightarrow> event list \<times> (py_error + paper list) \<times> memo" where
  "search_papers_cached client m now q n =
     (case memo_lookup m now (q, n) of
        Some val \<Rightarrow> ([], Inr val, m)
      | None \<Rightarrow>
          (case search_papers (client now) q n of
             (evs, Inr papers) \<Rightarrow> (evs, Inr papers, m((q, n) \<mapsto> (now, papers)))
           | (evs, Inl err) \<Rightarrow> (evs, Inl err, m)))"

subsection \<open>The presentation loop\<close>

text \<open>What the widgets of the sidebar and the button give in one run of the script.\<close>

record inputs =
  api_key :: string
  keyword :: string
  max_papers :: int
  clicked :: bool

text \<open>One pass of the loop body (lines 145-170) for the paper at index \<open>i\<close>.\<close>

definition render_paper :: "gen_service \<Rightarrow> nat \<Rightarrow> paper \<Rightarrow> event list \<times> (py_error + unit)" where
  "render_paper svc i p =
     (let before_expert =
            [Paper_heading (i + 1) (title p),
             Caption (''Authors: '' @ authors p @ '' | Published: '' @ published p),
             Expander_abstract (summary p),
             Columns 2,
             Col1_heading,
             Spinner ''Analyzing (Expert)...'',
             ReviewCall (summary p) ''expert'']
      in case generate_review svc (summary p) ''expert'' of
           (calls1, Inl err) \<Rightarrow> (before_expert @ map GenerateContent calls1, Inl err)
         | (calls1, Inr review_expert) \<Rightarrow>
             (let before_beginner =
                    before_expert @ map GenerateContent calls1 @
                    [Col1_info review_expert,
                     Col2_heading,
                     Spinner ''Analyzing (Beginner)...'',
                     ReviewCall (summary p) ''beginner'']
              in case generate_review svc (summary p) ''beginner'' of
                   (calls2, Inl err) \<Rightarrow> (before_beginner @ map GenerateContent calls2, Inl err)
                 | (calls2, Inr review_beginner) \<Rightarrow>
                     (before_beginner @ map GenerateContent calls2 @
                      [Col2_success review_beginner, Divider], Inr ())))"

text \<open>The loop of line 144 over \<open>enumerate(papers)\<close>, from index \<open>i\<close> on.\<close>

fun render_papers :: "gen_service \<Rightarrow> nat \<Rightarrow> paper list \<Rightarrow> event list \<times> (py_error + unit)" where
  "render_papers svc i [] = ([], Inr ())"
| "render_papers svc i (p # rest) =
     (case render_paper svc i p of
        (evs, Inl err) \<Rightarrow> (evs, Inl err)
      | (evs, Inr u) \<Rightarrow>
          (case render_papers svc (i + 1) rest of (evs', out) \<Rightarrow> (evs @ evs', out)))"

text \<open>
  \<open>main\<close> (lines 105-170): one run of the script at time \<open>now\<close>, with the memo as the
  earlier runs left it. The result is the events of the run, its outcome, and the memo.
\<close>

definition page_head :: "event list" where
  "page_head =
     [Title, Intro, Sidebar_settings_header, Sidebar_divider, Sidebar_filter_header, Sidebar_tip]"

definition main ::
  "(nat \<Rightarrow> Search \<Rightarrow> feed) \<Rightarrow> gen_service \<Rightarrow> memo \<Rightarrow> nat \<Rightarrow> inputs
     \<Rightarrow> event list \<times> (py_error + unit) \<times> memo" where
  "main client svc m now inp =
     (if api_key inp = [] then (page_head @ [Warning_no_key], Inr (), m)
      else
        (let setup = page_head @ [Configure (api_key inp)] in
         if clicked inp then
           (let calling = setup @ [Spinner ''Fetching papers from Arxiv...'',
                                   SearchCall (keyword inp) (max_papers inp)]
            in case search_papers_cached client m now (keyword inp) (max_papers inp) of
                 (evs, Inl err, m') \<Rightarrow> (calling @ evs, Inl err, m')
               | (evs, Inr papers, m') \<Rightarrow>
                   if papers = [] then (calling @ evs @ [Warning_not_found], Inr (), m')
                   else
                     (case render_papers svc 0 papers of
                        (evs', out) \<Rightarrow>
                          (calling @ evs @ [Success_found (length papers)] @ evs', out, m')))
         else (setup, Inr (), m)))"

subsection \<open>Readings of a run\<close>

text \<open>The calls of the search client, the requests to the provider, and the calls of
  the review generator among the events of a run.\<close>

fun search_calls :: "event list \<Rightarrow> (string \<times> int) list" where
  "search_calls [] = []"
| "search_calls (SearchCall q n # evs) = (q, n) # search_calls evs"
| "search_calls (ev # evs) = search_calls evs"

fun provider_requests :: "event list \<Rightarrow> Search list" where
  "provider_requests [] = []"
| "provider_requests (ProviderRequest s # evs) = s # provider_requests evs"
| "provider_requests (ev # evs) = provider_requests evs"

fun review_calls :: "event list \<Rightarrow> (string \<times> string) list" where
  "review_calls [] = []"
| "review_calls (ReviewCall t persona # evs) = (t, persona) # review_calls evs"
| "review_calls (ev # evs) = review_calls evs"

fun generate_requests :: "event list \<Rightarrow> gen_call list" where
  "generate_requests [] = []"
| "generate_requests (GenerateContent c # evs) = c # generate_requests evs"
| "generate_requests (ev # evs) = generate_requests evs"

text \<open>Whether the service answers a request with an exception that no handler of the
  script catches.\<close>

definition interrupts :: "gen_service \<Rightarrow> gen_call \<Rightarrow> bool" where
  "interrupts svc c = (case svc c of Inl (PyBaseException e) \<Rightarrow> True | _ \<Rightarrow> False)"

text \<open>The time at which the memo's entry for a key expires, when it has one.\<close>

definition window_end :: "memo \<Rightarrow> string \<times> int \<Rightarrow> nat option" where
  "window_end m key = (case m key of None \<Rightarrow> None | Some (stored, val) \<Rightarrow> Some (stored + ttl))"

subsection \<open>The record and the page in the words of the spec\<close>

text \<open>
  The spec asks of a record that \<open>authors\<close> is the author list flattened into one string
  with commas between the names, and that \<open>published\<close> is an ISO-8601 calendar date:
  four digits, a hyphen, two digits, a hyphen, two digits, read as year, month and day.
  \<open>comma_joined\<close> writes the first; \<open>parse_iso8601_day\<close> reads the second and gives the
  date it denotes, or nothing when the string is not of that form.
\<close>

definition comma_joined :: "string list \<Rightarrow> string" where
  "comma_joined names =
     (case names of [] \<Rightarrow> [] | first # others \<Rightarrow> first @ concat (map (\<lambda>x. '', '' @ x) others))"

definition is_digit :: "char \<Rightarrow> bool" where
  "is_digit c = (CHR ''0'' \<le> c \<and> c \<le> CHR ''9'')"

definition digit_value :: "char \<Rightarrow> nat" where
  "digit_value c = of_char c - 48"

definition decimal :: "string \<Rightarrow> nat" where
  "decimal s = foldl (\<lambda>a c. 10 * a + digit_value c) 0 s"

definition parse_iso8601_day :: "string \<Rightarrow> (nat \<times> nat \<times> nat) option" where
  "parse_iso8601_day s =
     (if length s = 10 \<and> s ! 4 = CHR ''-'' \<and> s ! 7 = CHR ''-''
         \<and> list_all is_digit (take 4 s @ take 2 (drop 5 s) @ drop 8 s)
         \<and> 1 \<le> decimal (take 2 (drop 5 s)) \<and> decimal (take 2 (drop 5 s)) \<le> 12
         \<and> 1 \<le> decimal (drop 8 s) \<and> decimal (drop 8 s) \<le> 31
      then Some (decimal (take 4 s), decimal (take 2 (drop 5 s)), decimal (drop 8 s))
      else None)"

text \<open>
  The spec's rendering of one record: title, author and date caption, the collapsible
  abstract, and the two review panels side by side, the expert's first. Each panel holds
  what the service answered to the persona's request, or the marked error text.
\<close>

definition expert_call :: "string \<Rightarrow> gen_call" where
  "expert_call t =
     \<lparr>model_name = ''gemini-1.5-flash'', prompt = FullPrompt ExpertTemplate t,
      generation_config = \<lparr>temperature = 0\<rparr>\<rparr>"

definition beginner_call :: "string \<Rightarrow> gen_call" where
  "beginner_call t =
     \<lparr>model_name = ''gemini-1.5-flash'', prompt = FullPrompt BeginnerTemplate t,
      generation_config = \<lparr>temperature = 7 / 10\<rparr>\<rparr>"

definition panel_text :: "gen_service \<Rightarrow> gen_call \<Rightarrow> string" where
  "panel_text svc c =
     (case svc c of
        Inr t \<Rightarrow> t
      | Inl (PyException e) \<Rightarrow> ''Error generation review: '' @ e
      | Inl (PyBaseException e) \<Rightarrow> [])"

definition paper_card :: "gen_service \<Rightarrow> nat \<times> paper \<Rightarrow> event list" where
  "paper_card svc ip =
     (case ip of (i, p) \<Rightarrow>
        [Paper_heading (i + 1) (title p),
         Caption (''Authors: '' @ authors p @ '' | Published: '' @ published p),
         Expander_abstract (summary p),
         Columns 2,
         Col1_heading,
         Spinner ''Analyzing (Expert)...'',
         ReviewCall (summary p) ''expert'',
         GenerateContent (expert_call (summary p)),
         Col1_info (panel_text svc (expert_call (summary p))),
         Col2_heading,
         Spinner ''Analyzing (Beginner)...'',
         ReviewCall (summary p) ''beginner'',
         GenerateContent (beginner_call (summary p)),
         Col2_success (panel_text svc (beginner_call (summary p))),
         Divider])"

subsection \<open>Sample data\<close>

text \<open>Two results, a provider that answers with both, and one that fails after the first.\<close>

definition sample_new :: arxiv_result where
  "sample_new =
     \<lparr>res_title = ''Agents at Scale'', res_summary = ''We study agents.'',
      res_entry_id = ''http://arxiv.org/abs/2403.00002v1'',
      res_published = \<lparr>dt_year = 2024, dt_month = 3, dt_day = 9,
                         dt_hour = 17, dt_minute = 5, dt_second = 0\<rparr>,
      res_authors = [Author ''A. One'', Author ''B. Two'']\<rparr>"

definition sample_old :: arxiv_result where
  "sample_old =
     \<lparr>res_title = ''Retrieval'', res_summary = ''We study retrieval.'',
      res_entry_id = ''http://arxiv.org/abs/2311.00001v1'',
      res_published = \<lparr>dt_year = 2023, dt_month = 11, dt_day = 30,
                         dt_hour = 8, dt_minute = 0, dt_second = 59\<rparr>,
      res_authors = [Author ''C. Three'']\<rparr>"

definition sample_client :: "nat \<Rightarrow> Search \<Rightarrow> feed" where
  "sample_client now s = Yield sample_new (Yield sample_old Stop)"

definition failing_client :: "nat \<Rightarrow> Search \<Rightarrow> feed" where
  "failing_client now s = Yield sample_new (Fail (PyException ''HTTP 503''))"

definition changing_client :: "nat \<Rightarrow> Search \<Rightarrow> feed" where
  "changing_client now s =
     (if now < 1000 then Yield sample_old Stop else Yield sample_new (Yield sample_old Stop))"

definition sample_inputs :: inputs where
  "sample_inputs =
     \<lparr>api_key = ''secret'', keyword = ''LLM Agents'', max_papers = 3, clicked = True\<rparr>"

definition no_key_inputs :: inputs where
  "no_key_inputs = \<lparr>api_key = [], keyword = ''LLM Agents'', max_papers = 3, clicked = True\<rparr>"

definition sample_service :: gen_service where
  "sample_service c =
     (if temperature (generation_config c) = 0 then Inr ''A precise review.''
      else Inl (PyException ''quota exceeded''))"

section \<open>Properties of the review generator\<close>

lemma generate_review_expert_calls:
  "fst (generate_review svc text ''expert'') =
     [\<lparr>model_name = gemini_model_name, prompt = FullPrompt ExpertTemplate text,
       generation_config = \<lparr>temperature = 0\<rparr>\<rparr>]"
  by (simp add: generate_review_def prompts_def make_generation_config_def Let_def
      split: sum.split raised.split)

lemma generate_review_beginner_calls:
  "fst (generate_review svc text ''beginner'') =
     [\<lparr>model_name = gemini_model_name, prompt = FullPrompt BeginnerTemplate text,
       generation_config = \<lparr>temperature = 7 / 10\<rparr>\<rparr>]"
  by (simp add: generate_review_def prompts_def make_generation_config_def Let_def
      split: sum.split raised.split)

lemma generate_review_other_calls:
  "fst (generate_review svc text persona) =
     (if persona = ''expert'' \<or> persona = ''beginner''
      then [\<lparr>model_name = gemini_model_name,
             prompt = FullPrompt (if persona = ''expert'' then ExpertTemplate else BeginnerTemplate) text,
             generation_config = make_generation_config persona\<rparr>]
      else [])"
  by (simp add: generate_review_def prompts_def Let_def split: sum.split raised.split)

text \<open>
  Claim C1. The temperature sent to the generative-text service depends on the persona
  only: whatever the service answers and whatever the text, a call with persona
  \<open>expert\<close> sends exactly one request, with temperature 0.0, a call with persona
  \<open>beginner\<close> sends exactly one request, with temperature 0.7, and no call with any
  persona string sends a request with another temperature: the configuration built for
  a persona holds 0.0 for \<open>expert\<close> and 0.7 otherwise.
\<close>

theorem temperature_pure_function_of_persona:
  "sent_temperatures svc text ''expert'' = [0]
   \<and> sent_temperatures svc text ''beginner'' = [7 / 10]
   \<and> sent_temperatures svc text persona = sent_temperatures svc' text' persona
   \<and> set (sent_temperatures svc text persona) \<subseteq> {0, 7 / 10}
   \<and> temperature (make_generation_config persona) = (if persona = ''expert'' then 0 else 7 / 10)"
proof -
  have e: "sent_temperatures svc text ''expert'' = [0]"
    by (simp add: sent_temperatures_def generate_review_expert_calls)
  have b: "sent_temperatures svc text ''beginner'' = [7 / 10]"
    by (simp add: sent_temperatures_def generate_review_beginner_calls)
  have p: "sent_temperatures svc text persona = sent_temperatures svc' text' persona"
    by (simp add: sent_temperatures_def generate_review_other_calls)
  have s: "set (sent_temperatures svc text persona) \<subseteq> {0, 7 / 10}"
    by (auto simp add: sent_temperatures_def generate_review_other_calls
        make_generation_config_def)
  have c: "temperature (make_generation_config persona)
             = (if persona = ''expert'' then 0 else 7 / 10)"
    by (simp add: make_generation_config_def)
  from e b p s c show ?thesis by (simp only: simp_thms)
qed

text \<open>
  Claim C3. When the request to the generative-text service raises an error (an instance
  of \<open>Exception\<close>, with text \<open>e\<close>), \<open>generate_review\<close> returns instead of raising: the
  result is the fixed marker \<open>Error generation review: \<close> followed by \<open>e\<close>, a non-empty
  string that starts with the marker. The request is named by the log of the call, so the
  statement covers every text and every persona string for which a request is sent.
\<close>

theorem generate_review_error_is_marked_string:
  assumes "fst (generate_review svc text persona) = [call]"
    and "svc call = Inl (PyException e)"
  shows "snd (generate_review svc text persona) = Inr (''Error generation review: '' @ e)
         \<and> (\<exists>s. snd (generate_review svc text persona) = Inr s \<and> s \<noteq> []
                \<and> take 25 s = ''Error generation review: '')"
proof (cases "prompts persona")
  case None
  then show ?thesis using assms(1) by (simp add: generate_review_def Let_def)
next
  case (Some tmpl)
  let ?c = "\<lparr>model_name = gemini_model_name, prompt = FullPrompt tmpl text,
             generation_config = make_generation_config persona\<rparr>"
  have "fst (generate_review svc text persona) = [?c]"
    using Some by (simp add: generate_review_def Let_def split: sum.split raised.split)
  with assms(1) have "call = ?c" by simp
  with assms(2) have "svc ?c = Inl (PyException e)" by simp
  then have "snd (generate_review svc text persona) = Inr (''Error generation review: '' @ e)"
    using Some by (simp add: generate_review_def Let_def)
  then show ?thesis by simp
qed

theorem generate_review_error_is_marked_string_witness:
  "fst (generate_review (\<lambda>c. Inl (PyException ''quota'')) ''abs'' ''beginner'')
     = [\<lparr>model_name = ''gemini-1.5-flash'', prompt = FullPrompt BeginnerTemplate ''abs'',
         generation_config = \<lparr>temperature = 7 / 10\<rparr>\<rparr>]
   \<and> snd (generate_review (\<lambda>c. Inl (PyException ''quota'')) ''abs'' ''beginner'')
     = Inr ''Error generation review: quota''"
  using generate_review_error_is_marked_string
    [of "\<lambda>c. Inl (PyException ''quota'')" "''abs''" "''beginner''"
        "\<lparr>model_name = ''gemini-1.5-flash'', prompt = FullPrompt BeginnerTemplate ''abs'',
          generation_config = \<lparr>temperature = 7 / 10\<rparr>\<rparr>" "''quota''"]
  by (simp add: generate_review_beginner_calls gemini_model_name_def)

text \<open>
  Claim C9. For a persona string other than \<open>expert\<close> and \<open>beginner\<close> the lookup
  \<open>prompts[persona]\<close> fails before the \<open>try\<close>: \<open>generate_review\<close> raises \<open>KeyError\<close>
  with the persona as the missing key, sends no request, and returns no string, whatever
  the service would have answered.
\<close>

theorem generate_review_unknown_persona_raises:
  assumes "persona \<noteq> ''expert''" and "persona \<noteq> ''beginner''"
  shows "generate_review svc text persona = ([], Inl (KeyError persona))
         \<and> (\<forall>s. snd (generate_review svc text persona) \<noteq> Inr s)"
  using assms by (simp add: generate_review_def prompts_def Let_def)

theorem generate_review_unknown_persona_raises_witness:
  "''Expert'' \<noteq> ''expert'' \<and> ''Expert'' \<noteq> ''beginner''
   \<and> generate_review (\<lambda>c. Inr ''fine'') ''abs'' ''Expert'' = ([], Inl (KeyError ''Expert''))"
  using generate_review_unknown_persona_raises [of "''Expert''" "\<lambda>c. Inr ''fine''" "''abs''"]
  by simp

section \<open>Properties of the search client\<close>

subsection \<open>The loop and the function\<close>

lemma for_results_run:
  "for_results f acc = (acc @ map make_paper (feed_items f), feed_error f)"
  by (induction f arbitrary: acc) simp_all

lemma feed_items_yields: "feed_items (yields rs f) = rs @ feed_items f"
  by (induction rs) simp_all

lemma feed_error_yields: "feed_error (yields rs f) = feed_error f"
  by (induction rs) simp_all

lemma search_papers_run:
  "search_papers client q n =
     (case feed_error (client (arxiv_Search q n SubmittedDate)) of
        None \<Rightarrow>
          ([ProviderRequest (arxiv_Search q n SubmittedDate)],
           Inr (map make_paper (feed_items (client (arxiv_Search q n SubmittedDate)))))
      | Some (PyException e) \<Rightarrow>
          ([ProviderRequest (arxiv_Search q n SubmittedDate),
            St_error (''Arxiv API Error: '' @ e)], Inr [])
      | Some (PyBaseException e) \<Rightarrow>
          ([ProviderRequest (arxiv_Search q n SubmittedDate)],
           Inl (Uncaught (PyBaseException e))))"
  by (simp add: search_papers_def for_results_run Let_def split: option.split raised.split)

lemma search_papers_returned:
  assumes "snd (search_papers client q n) = Inr ps"
  shows "ps = map make_paper (feed_items (client (arxiv_Search q n SubmittedDate))) \<or> ps = []"
  using assms by (auto simp add: search_papers_run split: option.splits raised.splits)

lemma search_papers_requests:
  "provider_requests (fst (search_papers client q n)) = [arxiv_Search q n SubmittedDate]"
  by (simp add: search_papers_run split: option.split raised.split)

subsection \<open>Digits and dates\<close>

lemma zpad_4:
  "zpad 4 n = [digit_char (n div 1000 mod 10), digit_char (n div 100 mod 10),
               digit_char (n div 10 mod 10), digit_char (n mod 10)]"
proof -
  have "zpad (Suc (Suc (Suc (Suc 0)))) n =
      [digit_char (n div 1000 mod 10), digit_char (n div 100 mod 10),
       digit_char (n div 10 mod 10), digit_char (n mod 10)]"
    by simp
  moreover have "(4::nat) = Suc (Suc (Suc (Suc 0)))" by simp
  ultimately show ?thesis by (simp only:)
qed

lemma zpad_2: "zpad 2 n = [digit_char (n div 10 mod 10), digit_char (n mod 10)]"
proof -
  have "zpad (Suc (Suc 0)) n = [digit_char (n div 10 mod 10), digit_char (n mod 10)]"
    by simp
  moreover have "(2::nat) = Suc (Suc 0)" by simp
  ultimately show ?thesis by (simp only:)
qed

lemma strftime_chars:
  "strftime_Y_m_d d =
     [digit_char (dt_year d div 1000 mod 10), digit_char (dt_year d div 100 mod 10),
      digit_char (dt_year d div 10 mod 10), digit_char (dt_year d mod 10), CHR ''-'',
      digit_char (dt_month d div 10 mod 10), digit_char (dt_month d mod 10), CHR ''-'',
      digit_char (dt_day d div 10 mod 10), digit_char (dt_day d mod 10)]"
  by (simp add: strftime_Y_m_d_def zpad_4 zpad_2)

lemma of_char_digit_char: "k < 10 \<Longrightarrow> of_char (digit_char k) = 48 + k"
  by (simp add: digit_char_def)

lemma is_digit_digit_char: "k < 10 \<Longrightarrow> is_digit (digit_char k)"
  by (simp add: is_digit_def less_eq_char_def of_char_digit_char)

lemma digit_value_digit_char: "k < 10 \<Longrightarrow> digit_value (digit_char k) = k"
  by (simp add: digit_value_def of_char_digit_char)

lemma split_100: "(y::nat) mod 100 = 10 * (y div 10 mod 10) + y mod 10"
  using mod_mult2_eq [of y 10 10] by simp

lemma split_1000: "(y::nat) mod 1000 = 100 * (y div 100 mod 10) + y mod 100"
  using mod_mult2_eq [of y 100 10] by simp

lemma split_10000: "(y::nat) mod 10000 = 1000 * (y div 1000 mod 10) + y mod 1000"
  using mod_mult2_eq [of y 1000 10] by simp

lemma decimal_4:
  "decimal [digit_char (y div 1000 mod 10), digit_char (y div 100 mod 10),
            digit_char (y div 10 mod 10), digit_char (y mod 10)] = y mod 10000"
  by (simp add: decimal_def digit_value_digit_char split_10000 split_1000 split_100)

lemma decimal_2:
  "decimal [digit_char (y div 10 mod 10), digit_char (y mod 10)] = y mod 100"
  by (simp add: decimal_def digit_value_digit_char split_100)

lemma parse_strftime:
  assumes "provider_datetime d"
  shows "parse_iso8601_day (strftime_Y_m_d d) = Some (dt_year d, dt_month d, dt_day d)"
  using assms
  by (simp add: parse_iso8601_day_def strftime_chars is_digit_digit_char decimal_4 decimal_2
      provider_datetime_def)

lemma py_join_Cons: "py_join sep (x # xs) = x @ concat (map (\<lambda>y. sep @ y) xs)"
  by (induction xs arbitrary: x) simp_all

lemma py_join_comma_joined: "py_join '', '' names = comma_joined names"
proof (cases names)
  case Nil
  then show ?thesis by (simp add: comma_joined_def)
next
  case (Cons x xs)
  have "py_join '', '' (x # xs) = x @ concat (map ((@) '', '') xs)"
    using py_join_Cons [of "'', ''" x xs] by (simp only:)
  with Cons show ?thesis by (simp only: comma_joined_def list.case)
qed


subsection \<open>The order of dates and of their strings\<close>

lemma digit_char_less_iff:
  "a < 10 \<Longrightarrow> b < 10 \<Longrightarrow> digit_char a < digit_char b \<longleftrightarrow> a < b"
  by (simp add: less_char_def of_char_digit_char)

lemma digit_char_eq_iff:
  "a < 10 \<Longrightarrow> b < 10 \<Longrightarrow> digit_char a = digit_char b \<longleftrightarrow> a = b"
  by (simp add: digit_char_def)

lemma lex_pair:
  fixes P :: nat
  assumes "rA < P" and "rB < P"
  shows "P * dA + rA \<le> P * dB + rB \<longleftrightarrow> dA < dB \<or> dA = dB \<and> rA \<le> rB"
proof (cases "dA < dB")
  case True
  then have "Suc dA \<le> dB" by simp
  then have "P * Suc dA \<le> P * dB" by (rule mult_le_mono2)
  with assms(1) have "P * dA + rA \<le> P * dB + rB" by simp
  with True show ?thesis by simp
next
  case False
  show ?thesis
  proof (cases "dA = dB")
    case True
    then show ?thesis by simp
  next
    case ne: False
    with False have "Suc dB \<le> dA" by simp
    then have "P * Suc dB \<le> P * dA" by (rule mult_le_mono2)
    with assms(2) have "P * dB + rB < P * dA + rA" by simp
    with False ne show ?thesis by simp
  qed
qed

lemma zpad_length: "length (zpad w n) = w"
  by (induction w) simp_all

lemma zpad_le_iff: "zpad w a \<le> zpad w b \<longleftrightarrow> a mod 10 ^ w \<le> b mod 10 ^ w"
proof (induction w)
  case 0
  show ?case by simp
next
  case (Suc w)
  have sa: "a mod 10 ^ Suc w = 10 ^ w * (a div 10 ^ w mod 10) + a mod 10 ^ w"
    using mod_mult2_eq [of a "10 ^ w" 10] by (simp add: mult.commute)
  have sb: "b mod 10 ^ Suc w = 10 ^ w * (b div 10 ^ w mod 10) + b mod 10 ^ w"
    using mod_mult2_eq [of b "10 ^ w" 10] by (simp add: mult.commute)
  have ra: "a mod 10 ^ w < 10 ^ w" and rb: "b mod 10 ^ w < 10 ^ w" by simp_all
  have da: "a div 10 ^ w mod 10 < 10" and db: "b div 10 ^ w mod 10 < 10" by simp_all
  have "zpad (Suc w) a \<le> zpad (Suc w) b \<longleftrightarrow>
          a div 10 ^ w mod 10 < b div 10 ^ w mod 10
          \<or> a div 10 ^ w mod 10 = b div 10 ^ w mod 10 \<and> a mod 10 ^ w \<le> b mod 10 ^ w"
    using Suc.IH by (simp add: digit_char_less_iff [OF da db] digit_char_eq_iff [OF da db])
  also have "\<dots> \<longleftrightarrow> a mod 10 ^ Suc w \<le> b mod 10 ^ Suc w"
    unfolding sa sb using lex_pair [OF ra rb] by simp
  finally show ?case .
qed

lemma zpad_less_iff: "zpad w a < zpad w b \<longleftrightarrow> a mod 10 ^ w < b mod 10 ^ w"
  using zpad_le_iff [of w b a] by (simp add: not_le [symmetric])

lemma zpad_eq_iff: "zpad w a = zpad w b \<longleftrightarrow> a mod 10 ^ w = b mod 10 ^ w"
  using zpad_le_iff [of w a b] zpad_le_iff [of w b a] by (auto simp: order_eq_iff)

lemma append_le_iff:
  fixes a b :: "'a::linorder list"
  assumes "length a = length b"
  shows "a @ x \<le> b @ y \<longleftrightarrow> a < b \<or> a = b \<and> x \<le> y"
  using assms by (induction a b rule: list_induct2) auto

lemma ymd_le_iff:
  assumes "ya < 10000" "yb < 10000" "ma < 100" "mb < 100" "da < 100" "db < 100"
  shows "zpad 4 ya @ ''-'' @ zpad 2 ma @ ''-'' @ zpad 2 da
           \<le> zpad 4 yb @ ''-'' @ zpad 2 mb @ ''-'' @ zpad 2 db
         \<longleftrightarrow> ya < yb \<or> ya = yb \<and> (ma < mb \<or> ma = mb \<and> da \<le> db)"
proof -
  have d: "zpad 2 da \<le> zpad 2 db \<longleftrightarrow> da \<le> db"
    using assms by (simp add: zpad_le_iff)
  have m: "zpad 2 ma @ ''-'' @ zpad 2 da \<le> zpad 2 mb @ ''-'' @ zpad 2 db
            \<longleftrightarrow> ma < mb \<or> ma = mb \<and> da \<le> db"
    using assms d by (simp add: append_le_iff zpad_length zpad_less_iff zpad_eq_iff)
  show ?thesis
    using assms m by (simp add: append_le_iff zpad_length zpad_less_iff zpad_eq_iff)
qed

lemma strftime_le_iff:
  assumes "provider_datetime a" and "provider_datetime b"
  shows "strftime_Y_m_d a \<le> strftime_Y_m_d b \<longleftrightarrow>
           dt_year a < dt_year b
           \<or> dt_year a = dt_year b
             \<and> (dt_month a < dt_month b
                \<or> dt_month a = dt_month b \<and> dt_day a \<le> dt_day b)"
  unfolding strftime_Y_m_d_def
  using assms by (intro ymd_le_iff) (simp_all add: provider_datetime_def)

lemma strftime_mono:
  assumes "provider_datetime a" and "provider_datetime b" and "datetime_le a b"
  shows "strftime_Y_m_d a \<le> strftime_Y_m_d b"
proof -
  from assms(3) have "dt_year a < dt_year b
           \<or> dt_year a = dt_year b
             \<and> (dt_month a < dt_month b
                \<or> dt_month a = dt_month b \<and> dt_day a \<le> dt_day b)"
    by (auto simp add: datetime_le_def datetime_key_def)
  with assms(1,2) show ?thesis by (simp only: strftime_le_iff)
qed

lemma sorted_published:
  assumes "\<forall>r \<in> set rs. provider_datetime (res_published r)"
    and "sorted_wrt (\<lambda>a b. datetime_le (res_published b) (res_published a)) rs"
  shows "sorted_wrt (\<lambda>a b. published b \<le> published a) (map make_paper rs)"
  using assms
proof (induction rs)
  case Nil
  show ?case by simp
next
  case (Cons r rs)
  have "published (make_paper x) \<le> published (make_paper r)" if "x \<in> set rs" for x
  proof -
    from Cons.prems that have "provider_datetime (res_published x)"
      and "provider_datetime (res_published r)"
      and "datetime_le (res_published x) (res_published r)"
      by simp_all
    then show ?thesis by (simp add: make_paper_def strftime_mono)
  qed
  moreover from Cons have "sorted_wrt (\<lambda>a b. published b \<le> published a) (map make_paper rs)"
    by simp
  ultimately show ?case by (simp add: sorted_wrt_map)
qed

subsection \<open>The sample data, evaluated\<close>

lemma make_paper_sample_new:
  "make_paper sample_new =
     \<lparr>title = ''Agents at Scale'', summary = ''We study agents.'',
      url = ''http://arxiv.org/abs/2403.00002v1'', published = ''2024-03-09'',
      authors = ''A. One, B. Two''\<rparr>"
  by (simp add: make_paper_def sample_new_def strftime_chars digit_char_def char_of_def bit_0)

lemma make_paper_sample_old:
  "make_paper sample_old =
     \<lparr>title = ''Retrieval'', summary = ''We study retrieval.'',
      url = ''http://arxiv.org/abs/2311.00001v1'', published = ''2023-11-30'',
      authors = ''C. Three''\<rparr>"
  by (simp add: make_paper_def sample_old_def strftime_chars digit_char_def char_of_def bit_0)

lemma sample_dates_valid:
  "provider_datetime (res_published sample_new)" "provider_datetime (res_published sample_old)"
  by (simp_all add: provider_datetime_def sample_new_def sample_old_def)

lemma sample_dates_descend:
  "datetime_le (res_published sample_old) (res_published sample_new)"
  by (simp add: datetime_le_def datetime_key_def sample_new_def sample_old_def)

lemma search_papers_sample:
  "search_papers (sample_client t) q n =
     ([ProviderRequest (arxiv_Search q n SubmittedDate)],
      Inr [make_paper sample_new, make_paper sample_old])"
  by (simp add: search_papers_run sample_client_def)

lemma search_papers_failing:
  "search_papers (failing_client t) q n =
     ([ProviderRequest (arxiv_Search q n SubmittedDate),
       St_error ''Arxiv API Error: HTTP 503''], Inr [])"
  by (simp add: search_papers_run failing_client_def)

subsection \<open>The claims about the search client\<close>

text \<open>
  Claim C2. For every query and limit, when the provider raises an error while
  \<open>search_papers\<close> iterates over its results (an instance of \<open>Exception\<close>, at any point of
  the iteration), the function does not raise: it asks the provider once, shows the
  message \<open>Arxiv API Error: \<close> followed by the error's text, and returns the empty list.
\<close>

theorem search_error_returns_empty:
  assumes "feed_error (client (arxiv_Search q n SubmittedDate)) = Some (PyException e)"
  shows "search_papers client q n =
           ([ProviderRequest (arxiv_Search q n SubmittedDate),
             St_error (''Arxiv API Error: '' @ e)], Inr [])"
  using assms by (simp add: search_papers_run)

theorem search_error_returns_empty_witness:
  "feed_error (failing_client 0 (arxiv_Search ''LLM Agents'' 3 SubmittedDate))
     = Some (PyException ''HTTP 503'')
   \<and> search_papers (failing_client 0) ''LLM Agents'' 3 =
       ([ProviderRequest (arxiv_Search ''LLM Agents'' 3 SubmittedDate),
         St_error ''Arxiv API Error: HTTP 503''], Inr [])"
  using search_error_returns_empty [of "failing_client 0" "''LLM Agents''" 3 "''HTTP 503''"]
  by (simp add: failing_client_def)

text \<open>
  Claim C10. When the provider yields some results and then raises an error, the loop of
  \<open>search_papers\<close> has built a record for each result it received, and the function
  returns the empty list all the same: the caller sees none of them.
\<close>

theorem partial_results_discarded:
  assumes "client (arxiv_Search q n SubmittedDate) = yields items (Fail (PyException e))"
  shows "for_results (client (arxiv_Search q n SubmittedDate)) []
           = (map make_paper items, Some (PyException e))
         \<and> snd (search_papers client q n) = Inr []"
  using assms
  by (simp add: search_papers_run for_results_run feed_items_yields feed_error_yields)

theorem partial_results_discarded_witness:
  "failing_client 0 (arxiv_Search ''LLM Agents'' 3 SubmittedDate)
     = yields [sample_new] (Fail (PyException ''HTTP 503''))
   \<and> fst (for_results (failing_client 0 (arxiv_Search ''LLM Agents'' 3 SubmittedDate)) [])
     = [make_paper sample_new]
   \<and> snd (search_papers (failing_client 0) ''LLM Agents'' 3) = Inr []"
  using partial_results_discarded
    [of "failing_client 0" "''LLM Agents''" 3 "[sample_new]" "''HTTP 503''"]
  by (simp add: failing_client_def)

text \<open>
  Claim C8. Every record \<open>search_papers\<close> returns is built from one of the provider's
  results: its \<open>authors\<close> is the author names of that result joined into one string with
  commas, and its \<open>published\<close> is an ISO-8601 calendar date that reads back as the year,
  month and day of the result's publication date, the time of day left out. The dates
  are those the provider gives: Python \<open>datetime\<close> values with a year of four digits.
\<close>

theorem paper_record_invariants:
  assumes "snd (search_papers client q n) = Inr ps"
    and "p \<in> set ps"
    and "\<forall>r \<in> set (feed_items (client (arxiv_Search q n SubmittedDate))).
           provider_datetime (res_published r)"
  shows "\<exists>r \<in> set (feed_items (client (arxiv_Search q n SubmittedDate))).
           title p = res_title r \<and> summary p = res_summary r \<and> url p = res_entry_id r
           \<and> authors p = comma_joined (map author_name (res_authors r))
           \<and> parse_iso8601_day (published p)
               = Some (dt_year (res_published r), dt_month (res_published r),
                       dt_day (res_published r))"
proof -
  let ?rs = "feed_items (client (arxiv_Search q n SubmittedDate))"
  from assms(1) have "ps = map make_paper ?rs \<or> ps = []"
    by (rule search_papers_returned)
  with assms(2) obtain r where r: "r \<in> set ?rs" and p: "p = make_paper r"
    by auto
  from r assms(3) have "provider_datetime (res_published r)" by simp
  then have "parse_iso8601_day (published p)
               = Some (dt_year (res_published r), dt_month (res_published r),
                       dt_day (res_published r))"
    by (simp add: p make_paper_def parse_strftime)
  moreover have "authors p = comma_joined (map author_name (res_authors r))"
    by (simp add: p make_paper_def py_join_comma_joined)
  moreover have "title p = res_title r \<and> summary p = res_summary r \<and> url p = res_entry_id r"
    by (simp add: p make_paper_def)
  ultimately show ?thesis using r by blast
qed

theorem paper_record_invariants_witness:
  "snd (search_papers (sample_client 0) ''LLM Agents'' 3)
     = Inr [make_paper sample_new, make_paper sample_old]
   \<and> provider_datetime (res_published sample_new)
   \<and> provider_datetime (res_published sample_old)
   \<and> authors (make_paper sample_new) = comma_joined [''A. One'', ''B. Two'']
   \<and> parse_iso8601_day (published (make_paper sample_new)) = Some (2024, 3, 9)"
  using paper_record_invariants
    [of "sample_client 0" "''LLM Agents''" 3 "[make_paper sample_new, make_paper sample_old]"
        "make_paper sample_new"]
  by (simp add: search_papers_sample sample_dates_valid sample_client_def
      make_paper_sample_new make_paper_sample_old)
    (simp add: sample_new_def sample_old_def)

text \<open>
  Claim C5. \<open>search_papers\<close> asks the provider for the results by submission date,
  descending, and returns the records in the order the provider gave the results: it
  sorts nothing itself. So whenever the provider's answer is in that order, the returned
  records are non-increasing in their publication date, read as Python compares the
  \<open>published\<close> strings.
\<close>

theorem results_keep_provider_order:
  assumes "snd (search_papers client q n) = Inr ps"
    and "\<forall>r \<in> set (feed_items (client (arxiv_Search q n SubmittedDate))).
           provider_datetime (res_published r)"
    and "sorted_wrt (\<lambda>a b. datetime_le (res_published b) (res_published a))
           (feed_items (client (arxiv_Search q n SubmittedDate)))"
  shows "provider_requests (fst (search_papers client q n))
           = [\<lparr>search_query = q, search_max_results = n, search_sort_by = SubmittedDate,
               search_sort_order = Descending\<rparr>]
         \<and> (ps = map make_paper (feed_items (client (arxiv_Search q n SubmittedDate)))
              \<or> ps = [])
         \<and> sorted_wrt (\<lambda>a b. published b \<le> published a) ps"
proof -
  let ?rs = "feed_items (client (arxiv_Search q n SubmittedDate))"
  have req: "provider_requests (fst (search_papers client q n))
           = [\<lparr>search_query = q, search_max_results = n, search_sort_by = SubmittedDate,
               search_sort_order = Descending\<rparr>]"
    by (simp add: search_papers_requests arxiv_Search_def)
  from assms(1) have ps: "ps = map make_paper ?rs \<or> ps = []"
    by (rule search_papers_returned)
  from assms(2,3) have "sorted_wrt (\<lambda>a b. published b \<le> published a) (map make_paper ?rs)"
    by (rule sorted_published)
  with ps have "sorted_wrt (\<lambda>a b. published b \<le> published a) ps" by auto
  with req ps show ?thesis by blast
qed

theorem results_keep_provider_order_witness:
  "snd (search_papers (sample_client 0) ''LLM Agents'' 3)
     = Inr [make_paper sample_new, make_paper sample_old]
   \<and> datetime_le (res_published sample_old) (res_published sample_new)
   \<and> map published [make_paper sample_new, make_paper sample_old]
       = [''2024-03-09'', ''2023-11-30'']
   \<and> sorted_wrt (\<lambda>a b. published b \<le> published a)
       [make_paper sample_new, make_paper sample_old]"
  using results_keep_provider_order
    [of "sample_client 0" "''LLM Agents''" 3 "[make_paper sample_new, make_paper sample_old]"]
  by (simp add: search_papers_sample sample_dates_valid sample_dates_descend sample_client_def
      make_paper_sample_new make_paper_sample_old)

section \<open>Properties of the memo\<close>

lemma search_papers_cached_hit:
  assumes "m (q, n) = Some (stored, val)" and "now < stored + ttl"
  shows "search_papers_cached client m now q n = ([], Inr val, m)"
  using assms by (simp add: search_papers_cached_def memo_lookup_def)

lemma memo_lookup_Some:
  assumes "memo_lookup m now key = Some val"
  shows "\<exists>stored. m key = Some (stored, val) \<and> now < stored + ttl"
  using assms by (auto simp add: memo_lookup_def split: option.splits if_splits)

lemma search_papers_cached_miss:
  assumes "memo_lookup m now (q, n) = None"
  shows "search_papers_cached client m now q n =
           (case search_papers (client now) q n of
              (evs, Inr papers) \<Rightarrow> (evs, Inr papers, m((q, n) \<mapsto> (now, papers)))
            | (evs, Inl err) \<Rightarrow> (evs, Inl err, m))"
  using assms by (simp add: search_papers_cached_def)

lemma search_papers_cached_events:
  "fst (search_papers_cached client m now q n) = [] \<or>
   fst (search_papers_cached client m now q n) = fst (search_papers (client now) q n)"
  by (simp add: search_papers_cached_def split: option.split prod.split sum.split)

text \<open>
  Claim C4. After a call of the memoized \<open>search_papers\<close> for a pair (query, limit) has
  returned, a second call for the same pair made before the pair's entry in the memo
  expires asks the provider nothing and returns the same sequence, whatever the provider
  would answer by then; the first call asked the provider at most once. When the first
  call was the one that fetched, the entry expires one hour (3600 seconds) after it.
\<close>

theorem second_call_in_window_is_memoized:
  assumes "search_papers_cached client m t1 q n = (evs1, Inr r1, m1)"
    and "window_end m1 (q, n) = Some w"
    and "t2 < w"
  shows "search_papers_cached client m1 t2 q n = ([], Inr r1, m1)
         \<and> length (provider_requests evs1) \<le> 1
         \<and> (if memo_lookup m t1 (q, n) = None
            then w = t1 + 3600 \<and> length (provider_requests evs1) = 1
            else provider_requests evs1 = [])"
proof (cases "memo_lookup m t1 (q, n)")
  case None
  obtain evs out where sp: "search_papers (client t1) q n = (evs, out)"
    by (cases "search_papers (client t1) q n")
  from assms(1) None sp have out: "out = Inr r1" and evs: "evs = evs1"
    and m1: "m1 = m((q, n) \<mapsto> (t1, r1))"
    by (auto simp add: search_papers_cached_miss split: sum.splits)
  from assms(2) m1 have w: "w = t1 + ttl"
    by (simp add: window_end_def)
  have "provider_requests evs = [arxiv_Search q n SubmittedDate]"
    using search_papers_requests [of "client t1" q n] sp by simp
  then have one: "length (provider_requests evs1) = 1"
    using evs by simp
  have "search_papers_cached client m1 t2 q n = ([], Inr r1, m1)"
    using assms(3) w m1 by (intro search_papers_cached_hit [where stored = t1]) simp_all
  with None one w show ?thesis by (simp add: ttl_def)
next
  case (Some val)
  with assms(1) have r1: "r1 = val" and m1: "m1 = m" and evs1: "evs1 = []"
    by (simp_all add: search_papers_cached_def)
  from Some obtain stored where st: "m (q, n) = Some (stored, val)"
    using memo_lookup_Some by blast
  with assms(2) m1 have w: "w = stored + ttl"
    by (simp add: window_end_def)
  have "search_papers_cached client m1 t2 q n = ([], Inr r1, m1)"
    using assms(3) w m1 st r1 by (intro search_papers_cached_hit [where stored = stored]) simp_all
  with Some evs1 show ?thesis by simp
qed

lemma changing_client_first:
  "search_papers_cached changing_client Map.empty 100 ''LLM Agents'' 3 =
     ([ProviderRequest (arxiv_Search ''LLM Agents'' 3 SubmittedDate)],
      Inr [make_paper sample_old],
      [(''LLM Agents'', 3) \<mapsto> (100, [make_paper sample_old])])"
  by (simp add: search_papers_cached_def memo_lookup_def search_papers_run changing_client_def)

theorem second_call_in_window_is_memoized_witness:
  "search_papers_cached changing_client Map.empty 100 ''LLM Agents'' 3 =
     ([ProviderRequest (arxiv_Search ''LLM Agents'' 3 SubmittedDate)],
      Inr [make_paper sample_old],
      [(''LLM Agents'', 3) \<mapsto> (100, [make_paper sample_old])])
   \<and> window_end [(''LLM Agents'', 3) \<mapsto> (100, [make_paper sample_old])] (''LLM Agents'', 3)
       = Some 3700
   \<and> search_papers_cached changing_client
        [(''LLM Agents'', 3) \<mapsto> (100, [make_paper sample_old])] 3699 ''LLM Agents'' 3 =
       ([], Inr [make_paper sample_old],
        [(''LLM Agents'', 3) \<mapsto> (100, [make_paper sample_old])])
   \<and> map make_paper (feed_items (changing_client 3699 (arxiv_Search ''LLM Agents'' 3 SubmittedDate)))
       = [make_paper sample_new, make_paper sample_old]"
  using second_call_in_window_is_memoized
    [of changing_client Map.empty 100 "''LLM Agents''" 3
        "[ProviderRequest (arxiv_Search ''LLM Agents'' 3 SubmittedDate)]"
        "[make_paper sample_old]"
        "[(''LLM Agents'', 3) \<mapsto> (100, [make_paper sample_old])]" 3700 3699]
  by (simp add: changing_client_first window_end_def ttl_def) (simp add: changing_client_def)

section \<open>Properties of the presentation loop\<close>

subsection \<open>Reading a list of events\<close>

lemma search_calls_append: "search_calls (xs @ ys) = search_calls xs @ search_calls ys"
  by (induction xs rule: search_calls.induct) simp_all

lemma review_calls_append: "review_calls (xs @ ys) = review_calls xs @ review_calls ys"
  by (induction xs rule: review_calls.induct) simp_all

lemma generate_requests_append:
  "generate_requests (xs @ ys) = generate_requests xs @ generate_requests ys"
  by (induction xs rule: generate_requests.induct) simp_all

lemma provider_requests_append:
  "provider_requests (xs @ ys) = provider_requests xs @ provider_requests ys"
  by (induction xs rule: provider_requests.induct) simp_all

lemma page_head_readings:
  "search_calls page_head = []" "review_calls page_head = []"
  "generate_requests page_head = []" "provider_requests page_head = []"
  by (simp_all add: page_head_def)

lemma search_papers_readings:
  "search_calls (fst (search_papers client q n)) = []"
  "review_calls (fst (search_papers client q n)) = []"
  "generate_requests (fst (search_papers client q n)) = []"
  by (simp_all add: search_papers_run split: option.split raised.split)

lemma search_papers_cached_readings:
  "search_calls (fst (search_papers_cached client m now q n)) = []"
  "review_calls (fst (search_papers_cached client m now q n)) = []"
  "generate_requests (fst (search_papers_cached client m now q n)) = []"
  using search_papers_cached_events [of client m now q n]
    search_papers_readings [of "client now" q n]
  by auto

lemma paper_card_readings:
  "search_calls (paper_card svc (i, p)) = []"
  "review_calls (paper_card svc (i, p)) = [(summary p, ''expert''), (summary p, ''beginner'')]"
  "generate_requests (paper_card svc (i, p)) = [expert_call (summary p), beginner_call (summary p)]"
  by (simp_all add: paper_card_def)

lemma cards_readings:
  "search_calls (concat (map (paper_card svc) (List.enumerate i ps))) = []"
  "review_calls (concat (map (paper_card svc) (List.enumerate i ps)))
     = concat (map (\<lambda>p. [(summary p, ''expert''), (summary p, ''beginner'')]) ps)"
  "generate_requests (concat (map (paper_card svc) (List.enumerate i ps)))
     = concat (map (\<lambda>p. [expert_call (summary p), beginner_call (summary p)]) ps)"
  by (induction ps arbitrary: i)
    (simp_all add: search_calls_append review_calls_append generate_requests_append
      paper_card_readings)

subsection \<open>One record, then all of them\<close>

lemma generate_review_expert_run:
  assumes "\<not> interrupts svc (expert_call t)"
  shows "generate_review svc t ''expert''
           = ([expert_call t], Inr (panel_text svc (expert_call t)))"
  using assms
  by (simp add: generate_review_def prompts_def make_generation_config_def Let_def
      expert_call_def gemini_model_name_def interrupts_def panel_text_def
      split: sum.splits raised.splits)

lemma generate_review_beginner_run:
  assumes "\<not> interrupts svc (beginner_call t)"
  shows "generate_review svc t ''beginner''
           = ([beginner_call t], Inr (panel_text svc (beginner_call t)))"
  using assms
  by (simp add: generate_review_def prompts_def make_generation_config_def Let_def
      beginner_call_def gemini_model_name_def interrupts_def panel_text_def
      split: sum.splits raised.splits)

lemma render_paper_run:
  assumes "\<not> interrupts svc (expert_call (summary p))"
    and "\<not> interrupts svc (beginner_call (summary p))"
  shows "render_paper svc i p = (paper_card svc (i, p), Inr ())"
  by (simp add: render_paper_def paper_card_def Let_def
      generate_review_expert_run [OF assms(1)] generate_review_beginner_run [OF assms(2)])

lemma render_papers_run:
  assumes "\<forall>p \<in> set ps. \<not> interrupts svc (expert_call (summary p))
                       \<and> \<not> interrupts svc (beginner_call (summary p))"
  shows "render_papers svc i ps = (concat (map (paper_card svc) (List.enumerate i ps)), Inr ())"
  using assms
proof (induction ps arbitrary: i)
  case Nil
  show ?case by simp
next
  case (Cons p ps)
  then have "render_paper svc i p = (paper_card svc (i, p), Inr ())"
    by (simp add: render_paper_run)
  moreover from Cons have "render_papers svc (Suc i) ps
      = (concat (map (paper_card svc) (List.enumerate (Suc i) ps)), Inr ())"
    by simp
  ultimately show ?case by simp
qed

lemma main_run:
  assumes "api_key inp \<noteq> []" and "clicked inp"
    and "search_papers_cached client m now (keyword inp) (max_papers inp) = (evs, Inr papers, m')"
    and "\<forall>p \<in> set papers. \<not> interrupts svc (expert_call (summary p))
                          \<and> \<not> interrupts svc (beginner_call (summary p))"
  shows "main client svc m now inp =
           (page_head @
            [Configure (api_key inp), Spinner ''Fetching papers from Arxiv...'',
             SearchCall (keyword inp) (max_papers inp)] @ evs @
            (if papers = [] then [Warning_not_found]
             else Success_found (length papers)
                  # concat (map (paper_card svc) (List.enumerate 0 papers))),
            Inr (), m')"
  using assms(1,2,3) render_papers_run [OF assms(4), of 0]
  by (simp add: main_def Let_def)

text \<open>
  Claim C6. In a run with a credential in which the user triggers the search, the search
  client is called exactly once. When it returns no record, the "not found" message is
  shown and the run ends. Otherwise the records are rendered in order, one after the
  other: title, author and date caption, the collapsible abstract, then the review
  generator called with persona \<open>expert\<close> and its output shown in the left column, then
  called with persona \<open>beginner\<close> and its output shown in the right column. The review
  generator is called twice for each record and at no other time. (The service is assumed
  not to interrupt the run with an exception outside \<open>Exception\<close>.)
\<close>

theorem rendering_pass:
  assumes "api_key inp \<noteq> []" and "clicked inp"
    and "search_papers_cached client m now (keyword inp) (max_papers inp) = (evs, Inr papers, m')"
    and "\<forall>p \<in> set papers. \<not> interrupts svc (expert_call (summary p))
                          \<and> \<not> interrupts svc (beginner_call (summary p))"
  shows "main client svc m now inp =
           (page_head @
            [Configure (api_key inp), Spinner ''Fetching papers from Arxiv...'',
             SearchCall (keyword inp) (max_papers inp)] @ evs @
            (if papers = [] then [Warning_not_found]
             else Success_found (length papers)
                  # concat (map (paper_card svc) (List.enumerate 0 papers))),
            Inr (), m')
         \<and> search_calls (fst (main client svc m now inp)) = [(keyword inp, max_papers inp)]
         \<and> review_calls (fst (main client svc m now inp))
             = concat (map (\<lambda>p. [(summary p, ''expert''), (summary p, ''beginner'')]) papers)
         \<and> generate_requests (fst (main client svc m now inp))
             = concat (map (\<lambda>p. [expert_call (summary p), beginner_call (summary p)]) papers)"
proof -
  note run = main_run [OF assms]
  from assms(3) have evs: "evs = fst (search_papers_cached client m now (keyword inp) (max_papers inp))"
    by simp
  have e: "search_calls evs = []" "review_calls evs = []" "generate_requests evs = []"
    unfolding evs by (rule search_papers_cached_readings)+
  have s: "search_calls (fst (main client svc m now inp)) = [(keyword inp, max_papers inp)]"
    by (simp add: run search_calls_append page_head_readings e cards_readings)
  have r: "review_calls (fst (main client svc m now inp))
             = concat (map (\<lambda>p. [(summary p, ''expert''), (summary p, ''beginner'')]) papers)"
    by (simp add: run review_calls_append page_head_readings e cards_readings)
  have g: "generate_requests (fst (main client svc m now inp))
             = concat (map (\<lambda>p. [expert_call (summary p), beginner_call (summary p)]) papers)"
    by (simp add: run generate_requests_append page_head_readings e cards_readings)
  from run s r g show ?thesis by (simp only: simp_thms)
qed

lemma sample_first_search:
  "search_papers_cached sample_client Map.empty 0 ''LLM Agents'' 3 =
     ([ProviderRequest (arxiv_Search ''LLM Agents'' 3 SubmittedDate)],
      Inr [make_paper sample_new, make_paper sample_old],
      [(''LLM Agents'', 3) \<mapsto> (0, [make_paper sample_new, make_paper sample_old])])"
  by (simp add: search_papers_cached_def memo_lookup_def search_papers_sample)

lemma sample_service_calm: "\<not> interrupts sample_service c"
  by (simp add: interrupts_def sample_service_def)

theorem rendering_pass_witness:
  "api_key sample_inputs \<noteq> [] \<and> clicked sample_inputs
   \<and> search_calls (fst (main sample_client sample_service Map.empty 0 sample_inputs))
       = [(''LLM Agents'', 3)]
   \<and> review_calls (fst (main sample_client sample_service Map.empty 0 sample_inputs))
       = [(''We study agents.'', ''expert''), (''We study agents.'', ''beginner''),
          (''We study retrieval.'', ''expert''), (''We study retrieval.'', ''beginner'')]
   \<and> map (\<lambda>c. temperature (generation_config c))
        (generate_requests (fst (main sample_client sample_service Map.empty 0 sample_inputs)))
       = [0, 7 / 10, 0, 7 / 10]"
  using rendering_pass
    [of sample_inputs sample_client Map.empty 0
        "[ProviderRequest (arxiv_Search ''LLM Agents'' 3 SubmittedDate)]"
        "[make_paper sample_new, make_paper sample_old]"
        "[(''LLM Agents'', 3) \<mapsto> (0, [make_paper sample_new, make_paper sample_old])]"
        sample_service]
  by (simp add: sample_inputs_def sample_first_search sample_service_calm
      make_paper_sample_new make_paper_sample_old expert_call_def beginner_call_def
      page_head_def paper_card_def)

text \<open>
  Claim C7. In a run with an empty credential the script shows the instruction to enter
  a key and returns: it never calls the search client, sends nothing to the provider or
  to the generative-text service, never calls the review generator, and leaves the memo
  as it was, whatever the other inputs are and whether or not the button is pressed.
\<close>

theorem empty_credential_blocks_search:
  assumes "api_key inp = []"
  shows "main client svc m now inp = (page_head @ [Warning_no_key], Inr (), m)
         \<and> search_calls (fst (main client svc m now inp)) = []
         \<and> provider_requests (fst (main client svc m now inp)) = []
         \<and> review_calls (fst (main client svc m now inp)) = []
         \<and> generate_requests (fst (main client svc m now inp)) = []"
  using assms
  by (simp add: main_def search_calls_append provider_requests_append review_calls_append
      generate_requests_append page_head_readings)

theorem empty_credential_blocks_search_witness:
  "api_key no_key_inputs = [] \<and> clicked no_key_inputs
   \<and> main sample_client sample_service Map.empty 0 no_key_inputs
       = ([Title, Intro, Sidebar_settings_header, Sidebar_divider, Sidebar_filter_header,
           Sidebar_tip, Warning_no_key], Inr (), Map.empty)"
  using empty_credential_blocks_search [of no_key_inputs sample_client sample_service Map.empty 0]
  by (simp add: no_key_inputs_def page_head_def)

end
